theory Spec2Isabelle
  imports Main "HOL-Library.Multiset" "HOL-Library.List_Lexorder"
begin

section \<open>Errors and tables\<close>

text \<open>
  The controllers throw plain JavaScript errors. \<open>Error m\<close> is \<open>new Error(m)\<close>
  (also the error a rejected database statement carries); \<open>TypeError m\<close> is the
  error the runtime raises when a property of \<open>undefined\<close> is read.
\<close>

datatype error = Error string | TypeError string

text \<open>
  Rows of the tables the controllers touch. Every field is named after the column,
  prefixed by its table. Timestamps are milliseconds as integers.
\<close>

record UserRow =
  user_id :: string
  user_username :: string
  user_password :: string
  user_email :: string
  user_nickname :: string
  user_introduction :: string

record ResourceRow =
  resource_id :: string
  resource_fileName :: string

record ComicInterface =
  comic_id :: string
  comic_name :: string
  comic_description :: string
  comic_postedBy :: string
  comic_thumbnail :: "string option"
  comic_createdAt :: int
  comic_updatedAt :: int
  comic_slug :: string
  comic_likes :: int
  comic_views :: int
  comic_author :: string
  comic_category :: string

record ComicTagRow =
  tag_id :: string
  tag_keyword :: string

record ComicBookTagRow =
  cbt_comicId :: string
  cbt_tagId :: string

record ComicChapterInterface =
  chapter_id :: string
  chapter_name :: string
  chapter_comicId :: string
  chapter_postedBy :: string
  chapter_viewType :: int
  chapter_createdAt :: int
  chapter_updatedAt :: int
  chapter_length :: int

record database =
  users :: "UserRow list"
  resources :: "ResourceRow list"
  comics :: "ComicInterface list"
  comic_tags :: "ComicTagRow list"
  comic_book_tags :: "ComicBookTagRow list"
  chapters :: "ComicChapterInterface list"

section \<open>JavaScript numbers\<close>

text \<open>
  The limit and the page of a chapter listing are JavaScript numbers: double-precision
  floating point. \<open>Finite neg m e\<close> is the number with sign \<open>neg\<close>, magnitude
  \<open>m * 2 ^ e\<close>; several pairs \<open>m\<close>, \<open>e\<close> denote the same number. \<open>Infinity neg\<close>
  and \<open>NaN\<close> are the two infinities and not-a-number.
\<close>

datatype number = NaN | Infinity bool | Finite bool nat int

text \<open>The number of binary digits of a natural number.\<close>

function bitlen :: "nat \<Rightarrow> nat" where
  "bitlen n = (if n = 0 then 0 else Suc (bitlen (n div 2)))"
  by pat_completeness auto
termination
  by (relation "measure id") auto

declare bitlen.simps [simp del]

text \<open>
  The double nearest to \<open>m * 2 ^ e\<close>, ties to the even significand: a significand has
  at most 53 binary digits and no exponent lies below -1074; a magnitude that reaches
  \<open>2 ^ 1024\<close> after rounding is an infinity.
\<close>

definition round_double :: "bool \<Rightarrow> nat \<Rightarrow> int \<Rightarrow> number" where
  "round_double neg m e =
     (if m = 0 then Finite neg 0 0
      else
        (let shift = max (int (bitlen m) - 53) (- 1074 - e)
         in if shift \<le> 0
            then (if int (bitlen m) + e > 1024 then Infinity neg else Finite neg m e)
            else
              (let d = 2 ^ nat shift;
                   q = m div d;
                   r = m mod d;
                   half = d div 2;
                   q' = (if r > half \<or> (r = half \<and> odd q) then q + 1 else q)
               in if int (bitlen q') + e + shift > 1024 then Infinity neg
                  else Finite neg q' (e + shift))))"

text \<open>The operator \<open>*\<close> on numbers.\<close>

fun times_number :: "number \<Rightarrow> number \<Rightarrow> number" where
  "times_number NaN y = NaN"
| "times_number x NaN = NaN"
| "times_number (Infinity s) (Infinity t) = Infinity (s \<noteq> t)"
| "times_number (Infinity s) (Finite t n f) = (if n = 0 then NaN else Infinity (s \<noteq> t))"
| "times_number (Finite s m e) (Infinity t) = (if m = 0 then NaN else Infinity (s \<noteq> t))"
| "times_number (Finite s m e) (Finite t n f) = round_double (s \<noteq> t) (m * n) (e + f)"

text \<open>\<open>!x\<close> holds of the two zeros and of NaN; \<open>x || y\<close> is \<open>y\<close> exactly then.\<close>

fun falsy_number :: "number \<Rightarrow> bool" where
  "falsy_number NaN = True"
| "falsy_number (Infinity s) = False"
| "falsy_number (Finite s m e) = (m = 0)"

definition or_number :: "number \<Rightarrow> number \<Rightarrow> number" where
  "or_number x y = (if falsy_number x then y else x)"

text \<open>A natural number as a number, and the natural number a number is, if it is one.\<close>

definition number_of_nat :: "nat \<Rightarrow> number" where
  "number_of_nat n = round_double False n 0"

fun count_of :: "number \<Rightarrow> nat option" where
  "count_of NaN = None"
| "count_of (Infinity s) = None"
| "count_of (Finite s m e) =
     (if m = 0 then Some 0
      else if s then None
      else if 0 \<le> e then Some (m * 2 ^ nat e)
      else if m mod 2 ^ nat (- e) = 0 then Some (m div 2 ^ nat (- e))
      else None)"

section \<open>Statements sent to the database\<close>

datatype order_dir = Asc | Desc

record chapter_select =
  sel_comicId :: string
  sel_limit :: number
  sel_offset :: number
  sel_orderBy :: string
  sel_order :: order_dir

record comic_update =
  upd_name :: string
  upd_description :: string
  upd_updatedAt :: int
  upd_slug :: string
  upd_author :: string
  upd_category :: string
  upd_thumbnail :: "string option"

text \<open>
  One constructor for each query builder call of the two controllers. A controller
  returns, besides its result and the database it leaves, the statements it sent, in
  order; an operation that sent nothing returns the empty list.
\<close>

datatype stmt =
    Begin
  | Commit
  | Rollback
  | InsertComic ComicInterface
  | InsertComicBookTag "ComicBookTagRow list"
  | SelectComic string
  | SelectResource "string option"
  | SelectComicTags string
  | UpdateComic string comic_update
  | DeleteComic string
  | IncrementViews string
  | SelectComicBySlugOrId string string
  | SelectChapters chapter_select
  | SelectChapter string
  | UpdateChapterLength string int
  | SelectUserByUsername string
  | InsertUser UserRow
  | UpdateUserProfile string "string option" "string option"

type_synonym 'a outcome = "(error + 'a) \<times> database \<times> stmt list"

text \<open>
  The database engine decides whether a statement is accepted, from the statement and
  the rows it sees (constraints, connection loss): it answers \<open>None\<close> or the error
  it rejects the statement with. The schema of the comic tables is not part of the
  sources, so the engine is a parameter of the operations whose source handles a
  rejected statement: the two transactions of the comic controller and the signup
  route. Every other statement is taken to succeed: the source handles no failure
  there.
\<close>

type_synonym engine = "stmt \<Rightarrow> database \<Rightarrow> error option"

section \<open>Library functions the controllers call\<close>

subsection \<open>validator.isUUID\<close>

text \<open>
  \<open>validator.isUUID(id)\<close> without a version accepts the pattern of eight, four, four,
  four and twelve hexadecimal digits separated by dashes, in either case.
\<close>

definition is_hex :: "char \<Rightarrow> bool" where
  "is_hex c \<longleftrightarrow> c \<in> set ''0123456789abcdefABCDEF''"

definition isUUID :: "string \<Rightarrow> bool" where
  "isUUID s \<longleftrightarrow>
     length s = 36 \<and>
     list_all is_hex (take 8 s) \<and> s ! 8 = CHR ''-'' \<and>
     list_all is_hex (take 4 (drop 9 s)) \<and> s ! 13 = CHR ''-'' \<and>
     list_all is_hex (take 4 (drop 14 s)) \<and> s ! 18 = CHR ''-'' \<and>
     list_all is_hex (take 4 (drop 19 s)) \<and> s ! 23 = CHR ''-'' \<and>
     list_all is_hex (drop 24 s)"

text \<open>The guard \<open>!id || !validator.isUUID(id)\<close> shared by the id-accepting operations.\<close>

definition bad_id :: "string \<Rightarrow> bool" where
  "bad_id ident \<longleftrightarrow> ident = [] \<or> \<not> isUUID ident"

subsection \<open>slugify\<close>

text \<open>
  \<open>slugify(name, { lower: true, remove: /[*+~.()'"!:@]/g })\<close>. The library maps each
  character through its character table (a parameter here: the table is data of the
  library), turns a mapped value equal to the replacement \<open>-\<close> into a space, deletes
  from the mapped value what the \<open>remove\<close> pattern matches, trims the result, replaces
  every run of white space by one \<open>-\<close>, and lowers the case. Characters are the 8-bit
  characters of HOL strings, on which Unicode normalisation is the identity.
\<close>

definition removed_chars :: "char list" where
  "removed_chars =
     [CHR ''*'', CHR ''+'', CHR ''~'', CHR ''.'', CHR ''('', CHR '')'',
      CHR 0x27, CHR 0x22, CHR ''!'', CHR '':'', CHR ''@'']"

definition is_space :: "char \<Rightarrow> bool" where
  "is_space c \<longleftrightarrow> c \<in> set [CHR 0x09, CHR 0x0A, CHR 0x0B, CHR 0x0C, CHR 0x0D, CHR 0x20, CHR 0xA0]"

text \<open>
  The characters \<open>toLowerCase\<close> changes among the first 256: the letters A to Z and
  the accented capitals from 192 to 222 (215, the multiplication sign, is no letter);
  each moves up by 32.
\<close>

definition is_upper :: "char \<Rightarrow> bool" where
  "is_upper c \<longleftrightarrow>
     (let n = (of_char c :: nat)
      in (65 \<le> n \<and> n \<le> 90) \<or> (192 \<le> n \<and> n \<le> 222 \<and> n \<noteq> 215))"

definition toLowerCase :: "char \<Rightarrow> char" where
  "toLowerCase c = (if is_upper c then char_of ((of_char c :: nat) + 32) else c)"

definition trim :: "string \<Rightarrow> string" where
  "trim s = rev (dropWhile is_space (rev (dropWhile is_space s)))"

function replace_spaces :: "string \<Rightarrow> string" where
  "replace_spaces [] = []"
| "replace_spaces (c # cs) =
     (if is_space c then CHR ''-'' # replace_spaces (dropWhile is_space cs)
      else c # replace_spaces cs)"
  by pat_completeness auto
termination
  by (relation "measure length") (auto simp: length_dropWhile_le less_Suc_eq_le)

definition map_char :: "(char \<Rightarrow> string option) \<Rightarrow> char \<Rightarrow> string" where
  "map_char charMap ch =
     (let appendChar = (case charMap ch of None \<Rightarrow> [ch] | Some s \<Rightarrow> s);
          appendChar = (if appendChar = ''-'' then '' '' else appendChar)
      in filter (\<lambda>c. c \<notin> set removed_chars) appendChar)"

definition slugify :: "(char \<Rightarrow> string option) \<Rightarrow> string \<Rightarrow> string" where
  "slugify charMap name =
     map toLowerCase (replace_spaces (trim (concat (map (map_char charMap) name))))"

section \<open>ComicController\<close>

definition createComic ::
  "(char \<Rightarrow> string option) \<Rightarrow> engine \<Rightarrow> string \<Rightarrow> int \<Rightarrow>
   string \<Rightarrow> string \<Rightarrow> string \<Rightarrow> string \<Rightarrow> string \<Rightarrow> string list \<Rightarrow> string option \<Rightarrow>
   database \<Rightarrow> ComicInterface outcome" where
  "createComic charMap eng uuid now name description postedBy author category tags thumbnail db =
     (let comic = \<lparr> comic_id = uuid, comic_name = name, comic_description = description,
                    comic_postedBy = postedBy, comic_thumbnail = thumbnail,
                    comic_createdAt = now, comic_updatedAt = now,
                    comic_slug = slugify charMap name,
                    comic_likes = 0, comic_views = 0,
                    comic_author = author, comic_category = category \<rparr>
      in case eng Begin db of
           Some e \<Rightarrow> (Inl e, db, [Begin])
         | None \<Rightarrow>
             (case eng (InsertComic comic) db of
                Some e \<Rightarrow> (Inl e, db, [Begin, InsertComic comic, Rollback])
              | None \<Rightarrow>
                  (let tx1 = db\<lparr>comics := comics db @ [comic]\<rparr>;
                       insertTags = map (\<lambda>tag. \<lparr>cbt_comicId = uuid, cbt_tagId = tag\<rparr>) tags
                   in case eng (InsertComicBookTag insertTags) tx1 of
                        Some e \<Rightarrow>
                          (Inl e, db,
                           [Begin, InsertComic comic, InsertComicBookTag insertTags, Rollback])
                      | None \<Rightarrow>
                          (let tx2 = tx1\<lparr>comic_book_tags := comic_book_tags tx1 @ insertTags\<rparr>
                           in case eng Commit tx2 of
                                Some e \<Rightarrow>
                                  (Inl e, db,
                                   [Begin, InsertComic comic, InsertComicBookTag insertTags,
                                    Commit, Rollback])
                              | None \<Rightarrow>
                                  (Inr comic, tx2,
                                   [Begin, InsertComic comic, InsertComicBookTag insertTags,
                                    Commit])))))"

record ComicView =
  view_comic :: ComicInterface
  view_thumbnailImg :: string
  view_tags :: "ComicTagRow list"

text \<open>
  The join of \<open>getComic\<close>: every tag-association row of the comic, paired with every
  tag row whose id it names; the columns are the association's tag id and the tag's
  keyword.
\<close>

definition select_comic_tags :: "database \<Rightarrow> string \<Rightarrow> ComicTagRow list" where
  "select_comic_tags db ident =
     concat (map (\<lambda>t1. map (\<lambda>t2. \<lparr>tag_id = cbt_tagId t1, tag_keyword = tag_keyword t2\<rparr>)
                          (filter (\<lambda>t2. tag_id t2 = cbt_tagId t1) (comic_tags db)))
                 (filter (\<lambda>t1. cbt_comicId t1 = ident) (comic_book_tags db)))"

definition select_resource :: "database \<Rightarrow> string option \<Rightarrow> ResourceRow option" where
  "select_resource db key =
     (case key of None \<Rightarrow> None
      | Some r \<Rightarrow> find (\<lambda>x. resource_id x = r) (resources db))"

definition getComic :: "string \<Rightarrow> database \<Rightarrow> ComicView outcome" where
  "getComic ident db =
     (if bad_id ident then (Inl (Error ''id is required''), db, [])
      else case find (\<lambda>c. comic_id c = ident) (comics db) of
             None \<Rightarrow>
               (Inl (TypeError ''Cannot read properties of undefined (reading thumbnail)''),
                db, [SelectComic ident])
           | Some comic \<Rightarrow>
               (let thumbnailInfo = select_resource db (comic_thumbnail comic);
                    tags = select_comic_tags db ident;
                    sent = [SelectComic ident, SelectResource (comic_thumbnail comic),
                            SelectComicTags ident]
                in case thumbnailInfo of
                     None \<Rightarrow>
                       (Inl (TypeError ''Cannot read properties of undefined (reading fileName)''),
                        db, sent)
                   | Some r \<Rightarrow>
                       (Inr \<lparr> view_comic = comic, view_thumbnailImg = resource_fileName r,
                              view_tags = tags \<rparr>, db, sent)))"

definition apply_update :: "string \<Rightarrow> comic_update \<Rightarrow> ComicInterface \<Rightarrow> ComicInterface" where
  "apply_update ident u c =
     (if comic_id c = ident
      then c\<lparr> comic_name := upd_name u, comic_description := upd_description u,
              comic_updatedAt := upd_updatedAt u, comic_slug := upd_slug u,
              comic_author := upd_author u, comic_category := upd_category u,
              comic_thumbnail := (case upd_thumbnail u of None \<Rightarrow> comic_thumbnail c
                                  | Some t \<Rightarrow> Some t) \<rparr>
      else c)"

definition updateComic ::
  "(char \<Rightarrow> string option) \<Rightarrow> engine \<Rightarrow> int \<Rightarrow>
   string \<Rightarrow> string \<Rightarrow> string \<Rightarrow> string \<Rightarrow> string \<Rightarrow> string list \<Rightarrow> string option \<Rightarrow>
   database \<Rightarrow> unit outcome" where
  "updateComic charMap eng now ident name description author category tags thumbnail db =
     (if bad_id ident then (Inl (Error ''id is required''), db, [])
      else
        (let u = \<lparr> upd_name = name, upd_description = description, upd_updatedAt = now,
                   upd_slug = slugify charMap name, upd_author = author,
                   upd_category = category, upd_thumbnail = thumbnail \<rparr>
         in case eng Begin db of
              Some e \<Rightarrow> (Inl e, db, [Begin])
            | None \<Rightarrow>
                (case eng (UpdateComic ident u) db of
                   Some e \<Rightarrow> (Inl e, db, [Begin, UpdateComic ident u, Rollback])
                 | None \<Rightarrow>
                     (let tx1 = db\<lparr>comics := map (apply_update ident u) (comics db)\<rparr>;
                          insertTags = map (\<lambda>tag. \<lparr>cbt_comicId = ident, cbt_tagId = tag\<rparr>) tags
                      in case eng (InsertComicBookTag insertTags) tx1 of
                           Some e \<Rightarrow>
                             (Inl e, db,
                              [Begin, UpdateComic ident u, InsertComicBookTag insertTags, Rollback])
                         | None \<Rightarrow>
                             (let tx2 = tx1\<lparr>comic_book_tags := comic_book_tags tx1 @ insertTags\<rparr>
                              in case eng Commit tx2 of
                                   Some e \<Rightarrow>
                                     (Inl e, db,
                                      [Begin, UpdateComic ident u, InsertComicBookTag insertTags,
                                       Commit, Rollback])
                                 | None \<Rightarrow>
                                     (Inr (), tx2,
                                      [Begin, UpdateComic ident u, InsertComicBookTag insertTags,
                                       Commit]))))))"

definition deleteComic :: "string \<Rightarrow> database \<Rightarrow> unit outcome" where
  "deleteComic ident db =
     (if bad_id ident then (Inl (Error ''id is required''), db, [])
      else (Inr (), db\<lparr>comics := filter (\<lambda>c. comic_id c \<noteq> ident) (comics db)\<rparr>,
            [DeleteComic ident]))"

definition updateViewComic :: "string \<Rightarrow> database \<Rightarrow> unit outcome" where
  "updateViewComic ident db =
     (if bad_id ident then (Inl (Error ''id is required''), db, [])
      else (Inr (),
            db\<lparr>comics := map (\<lambda>c. if comic_id c = ident
                                   then c\<lparr>comic_views := comic_views c + 1\<rparr> else c)
                              (comics db)\<rparr>,
            [IncrementViews ident]))"

definition hasComic :: "string \<Rightarrow> database \<Rightarrow> bool outcome" where
  "hasComic ident db =
     (if bad_id ident then (Inl (Error ''id is required''), db, [])
      else (Inr (find (\<lambda>c. comic_id c = ident) (comics db) \<noteq> None), db, [SelectComic ident]))"

record search_query =
  query_slug :: "string option"
  query_id :: "string option"

definition searchComic :: "search_query \<Rightarrow> database \<Rightarrow> ComicInterface option outcome" where
  "searchComic query db =
     (let slug = (case query_slug query of None \<Rightarrow> [] | Some s \<Rightarrow> s);
          ident = (case query_id query of None \<Rightarrow> [] | Some i \<Rightarrow> i)
      in (Inr (find (\<lambda>c. comic_slug c = slug \<or> comic_id c = ident) (comics db)), db,
          [SelectComicBySlugOrId slug ident]))"

section \<open>ComicChapterController\<close>

record chapter_filter =
  filter_limit :: "number option"
  filter_page :: "number option"
  filter_sortedBy :: "string option"
  filter_order :: "order_dir option"

text \<open>
  The database's part of the listing. The columns of the chapter table are sort keys:
  a number is a one-element key, a string the list of its character codes, compared
  lexicographically. The database takes a limit and an offset that are natural
  numbers and answers with that window of the ordered rows; it rejects a statement
  with any other limit or offset, or one that orders by a column the table does not
  have.
\<close>

definition string_key :: "string \<Rightarrow> int list" where
  "string_key s = map (\<lambda>c. (of_char c :: int)) s"

definition chapter_column :: "string \<Rightarrow> (ComicChapterInterface \<Rightarrow> int list) option" where
  "chapter_column col =
     (if col = ''id'' then Some (\<lambda>c. string_key (chapter_id c))
      else if col = ''name'' then Some (\<lambda>c. string_key (chapter_name c))
      else if col = ''comicId'' then Some (\<lambda>c. string_key (chapter_comicId c))
      else if col = ''postedBy'' then Some (\<lambda>c. string_key (chapter_postedBy c))
      else if col = ''viewType'' then Some (\<lambda>c. [chapter_viewType c])
      else if col = ''createdAt'' then Some (\<lambda>c. [chapter_createdAt c])
      else if col = ''updatedAt'' then Some (\<lambda>c. [chapter_updatedAt c])
      else if col = ''length'' then Some (\<lambda>c. [chapter_length c])
      else None)"

definition run_chapter_select ::
  "chapter_select \<Rightarrow> ComicChapterInterface list \<Rightarrow> error + ComicChapterInterface list" where
  "run_chapter_select q rows =
     (case chapter_column (sel_orderBy q) of
        None \<Rightarrow> Inl (Error ''Unknown column in order clause'')
      | Some key \<Rightarrow>
          (let matching = filter (\<lambda>c. chapter_comicId c = sel_comicId q) rows;
               ordered = (case sel_order q of
                            Asc \<Rightarrow> sort_key key matching
                          | Desc \<Rightarrow> rev (sort_key key matching))
           in case (count_of (sel_limit q), count_of (sel_offset q)) of
                (Some n, Some k) \<Rightarrow> Inr (take n (drop k ordered))
              | _ \<Rightarrow> Inl (Error ''Limit and offset must be natural numbers'')))"

text \<open>
  The arguments of the query builder: \<open>filter?.limit || 3\<close>,
  \<open>filter?.page * filter?.limit || 0\<close> (the product with an absent operand is NaN),
  \<open>filter?.sortedBy || "createdAt"\<close> and \<open>filter?.order || "asc"\<close>.
\<close>

definition chapters_query :: "string \<Rightarrow> chapter_filter option \<Rightarrow> chapter_select" where
  "chapters_query comicId filt =
     \<lparr> sel_comicId = comicId,
       sel_limit = (case filt of None \<Rightarrow> Finite False 3 0
                    | Some f \<Rightarrow> (case filter_limit f of None \<Rightarrow> Finite False 3 0
                                 | Some l \<Rightarrow> or_number l (Finite False 3 0))),
       sel_offset = or_number
                      (case filt of None \<Rightarrow> NaN
                       | Some f \<Rightarrow> (case (filter_page f, filter_limit f) of
                                      (Some p, Some l) \<Rightarrow> times_number p l
                                    | _ \<Rightarrow> NaN))
                      (Finite False 0 0),
       sel_orderBy = (case filt of None \<Rightarrow> ''createdAt''
                      | Some f \<Rightarrow> (case filter_sortedBy f of None \<Rightarrow> ''createdAt''
                                   | Some s \<Rightarrow> if s = [] then ''createdAt'' else s)),
       sel_order = (case filt of None \<Rightarrow> Asc
                    | Some f \<Rightarrow> (case filter_order f of None \<Rightarrow> Asc | Some d \<Rightarrow> d)) \<rparr>"

definition getChaptersFromComic ::
  "string \<Rightarrow> chapter_filter option \<Rightarrow> database \<Rightarrow> ComicChapterInterface list outcome" where
  "getChaptersFromComic comicId filt db =
     (if bad_id comicId then (Inl (Error ''id is required''), db, [])
      else (let q = chapters_query comicId filt
            in (run_chapter_select q (chapters db), db, [SelectChapters q])))"

definition getChapter :: "string \<Rightarrow> database \<Rightarrow> ComicChapterInterface option outcome" where
  "getChapter ident db =
     (if bad_id ident then (Inl (Error ''id is required''), db, [])
      else (Inr (find (\<lambda>c. chapter_id c = ident) (chapters db)), db, [SelectChapter ident]))"

definition updateChapterLength :: "string \<Rightarrow> int \<Rightarrow> database \<Rightarrow> unit outcome" where
  "updateChapterLength chapterId len db =
     (if bad_id chapterId then (Inl (Error ''id is required''), db, [])
      else (Inr (),
            db\<lparr>chapters := map (\<lambda>c. if chapter_id c = chapterId
                                     then c\<lparr>chapter_length := len\<rparr> else c)
                                (chapters db)\<rparr>,
            [UpdateChapterLength chapterId len]))"

section \<open>User routes\<close>

text \<open>
  Modelled from the spec: \<open>Locale.HttpResponseMessage\<close>, whose declaration is not
  part of the sources. The routes name these messages; the spec describes them as
  distinct texts ("incorrect password", "user not found", "user already exists").
  \<open>UnexpectedError\<close> is the literal the signup route passes when it catches.
\<close>

datatype HttpResponseMessage =
    MissingRequiredFields
  | InvalidNickname
  | InvalidEmail
  | InvalidIntroduction
  | UserAlreadyExists
  | UserNotFound
  | IncorrectPassword
  | NoTokenProvided
  | Unauthorized
  | UnexpectedError

datatype body =
    UserBody string string string string string
  | TokenBody string

text \<open>
  What a handler answers: \<open>NextError m s\<close> is \<open>next(new MiddlewareError(m, s))\<close>,
  \<open>Json s b\<close> is \<open>res.status(s).json(b)\<close> and \<open>End s\<close> is \<open>res.status(s).end()\<close>.
\<close>

datatype reply = NextError HttpResponseMessage nat | Json nat body | End nat

fun status :: "reply \<Rightarrow> nat" where
  "status (NextError m s) = s"
| "status (Json s b) = s"
| "status (End s) = s"

type_synonym handled = "reply \<times> database \<times> stmt list"

text \<open>
  A field of a JSON body is absent (\<open>None\<close>) or a string. \<open>!v\<close> holds of an absent
  field and of the empty string.
\<close>

definition falsy :: "string option \<Rightarrow> bool" where
  "falsy v \<longleftrightarrow> (case v of None \<Rightarrow> True | Some s \<Rightarrow> s = [])"

definition text_of :: "string option \<Rightarrow> string" where
  "text_of v = (case v of None \<Rightarrow> [] | Some s \<Rightarrow> s)"

text \<open>
  The functions of other modules and libraries the routes call, as parameters:
  the validators of \<open>ValidatorUtils\<close> and \<open>validator\<close>, \<open>bcryptjs\<close> and \<open>TokenUtils\<close>.
\<close>

record deps =
  isValidNickname :: "string \<Rightarrow> bool"
  isValidIntroduction :: "string option \<Rightarrow> bool"
  isEmail :: "string \<Rightarrow> bool"
  compareSync :: "string \<Rightarrow> string \<Rightarrow> bool"
  hashSync :: "string \<Rightarrow> string"
  generateToken :: "string \<Rightarrow> int \<Rightarrow> string"

subsection \<open>UserController\<close>

text \<open>
  Modelled from the spec: \<open>UserController.getUserFromUsername\<close>, which is not part of
  the sources. The spec has signin look the user up by username.
\<close>

definition getUserFromUsername :: "string \<Rightarrow> database \<Rightarrow> UserRow option" where
  "getUserFromUsername username db = find (\<lambda>u. user_username u = username) (users db)"

text \<open>
  Modelled from the spec: \<open>UserController.hasUserByUsername\<close>, which is not part of
  the sources. The spec has signup reject a username that already exists.
\<close>

definition hasUserByUsername :: "string \<Rightarrow> database \<Rightarrow> bool" where
  "hasUserByUsername username db \<longleftrightarrow> getUserFromUsername username db \<noteq> None"

text \<open>
  Modelled from the spec: \<open>UserController.createUser\<close>, which is not part of the
  sources. The spec has signup store a hashed password and return the created user;
  this is the row it inserts, under the id generated for it.
\<close>

definition createUser ::
  "deps \<Rightarrow> string \<Rightarrow> string \<Rightarrow> string \<Rightarrow> string \<Rightarrow> string \<Rightarrow> string \<Rightarrow> UserRow" where
  "createUser d uuid username password email nickname introduction =
     \<lparr> user_id = uuid, user_username = username, user_password = hashSync d password,
       user_email = email, user_nickname = nickname, user_introduction = introduction \<rparr>"

text \<open>
  Modelled from the spec: \<open>UserController.updateUserProfile\<close>, which is not part of
  the sources. The spec has the profile update persist the nickname and the
  introduction; a field that is not given keeps its stored value.
\<close>

definition updateUserProfile ::
  "string \<Rightarrow> string option \<Rightarrow> string option \<Rightarrow> database \<Rightarrow> database" where
  "updateUserProfile ident nickname introduction db =
     db\<lparr>users :=
          map (\<lambda>u. if user_id u = ident
                    then u\<lparr> user_nickname := (case nickname of None \<Rightarrow> user_nickname u
                                                | Some n \<Rightarrow> n),
                            user_introduction := (case introduction of
                                                    None \<Rightarrow> user_introduction u
                                                  | Some i \<Rightarrow> i) \<rparr>
                    else u)
              (users db)\<rparr>"

subsection \<open>The user object of an authenticated request\<close>

text \<open>
  Modelled from the spec: \<open>PermissionEnum\<close>, whose declaration is not part of the
  sources. The route names one flag; the others are numbered.
\<close>

datatype PermissionEnum = USER_UPDATE_PROFILE | OTHER_PERMISSION nat

text \<open>
  Modelled from the spec: the class \<open>User\<close>, which is not part of the sources. The
  spec gives the user object a permission query that resolves its permission group to
  the group's permission set; the object here carries that set.
\<close>

record User =
  User_id :: string
  User_username :: string
  User_email :: string
  User_nickname :: string
  User_permissions :: "PermissionEnum list"

text \<open>
  Modelled from the spec: \<open>User.hasPermission\<close>, which is not part of the sources:
  the permission query of the spec, answering the boolean that the route negates
  without awaiting it.
\<close>

definition hasPermission :: "User \<Rightarrow> PermissionEnum \<Rightarrow> bool" where
  "hasPermission u p \<longleftrightarrow> p \<in> set (User_permissions u)"

subsection \<open>POST /signup\<close>

record signup_body =
  signup_username :: "string option"
  signup_password :: "string option"
  signup_email :: "string option"
  signup_nickname :: "string option"
  signup_introduction :: "string option"

definition signup :: "deps \<Rightarrow> engine \<Rightarrow> string \<Rightarrow> signup_body \<Rightarrow> database \<Rightarrow> handled" where
  "signup d eng uuid b db =
     (if falsy (signup_username b) \<or> falsy (signup_password b) \<or>
         falsy (signup_email b) \<or> falsy (signup_nickname b)
      then (NextError MissingRequiredFields 400, db, [])
      else if \<not> isValidNickname d (text_of (signup_nickname b))
      then (NextError InvalidNickname 400, db, [])
      else if \<not> isEmail d (text_of (signup_email b))
      then (NextError InvalidEmail 400, db, [])
      else if \<not> isValidIntroduction d (signup_introduction b)
      then (NextError InvalidIntroduction 400, db, [])
      else if eng (SelectUserByUsername (text_of (signup_username b))) db \<noteq> None
      then (NextError UnexpectedError 500, db,
            [SelectUserByUsername (text_of (signup_username b))])
      else if hasUserByUsername (text_of (signup_username b)) db
      then (NextError UserAlreadyExists 400, db,
            [SelectUserByUsername (text_of (signup_username b))])
      else
        (let responseUser =
               createUser d uuid (text_of (signup_username b)) (text_of (signup_password b))
                 (text_of (signup_email b)) (text_of (signup_nickname b))
                 (text_of (signup_introduction b));
             sent = [SelectUserByUsername (text_of (signup_username b)),
                     InsertUser responseUser]
         in case eng (InsertUser responseUser) db of
              Some e \<Rightarrow> (NextError UnexpectedError 500, db, sent)
            | None \<Rightarrow>
                (Json 201 (UserBody (user_id responseUser) (user_username responseUser)
                             (user_email responseUser) (user_nickname responseUser)
                             (user_introduction responseUser)),
                 db\<lparr>users := users db @ [responseUser]\<rparr>, sent)))"

subsection \<open>POST /signin\<close>

record signin_body =
  signin_username :: "string option"
  signin_password :: "string option"

definition signin :: "deps \<Rightarrow> int \<Rightarrow> signin_body \<Rightarrow> database \<Rightarrow> handled" where
  "signin d now b db =
     (if falsy (signin_username b) \<or> falsy (signin_password b)
      then (NextError MissingRequiredFields 400, db, [])
      else case getUserFromUsername (text_of (signin_username b)) db of
             None \<Rightarrow>
               (NextError UserNotFound 400, db,
                [SelectUserByUsername (text_of (signin_username b))])
           | Some user \<Rightarrow>
               if \<not> compareSync d (text_of (signin_password b)) (user_password user)
               then (NextError IncorrectPassword 400, db,
                     [SelectUserByUsername (text_of (signin_username b))])
               else (Json 200 (TokenBody (generateToken d (user_id user) now)), db,
                     [SelectUserByUsername (text_of (signin_username b))]))"

subsection \<open>PUT /profile\<close>

text \<open>
  The request as the authentication middleware hands it on: the token and the user it
  resolved, either of which may be missing, and the two fields of the body.
\<close>

record profile_request =
  TokenRequest :: "string option"
  UserRequest :: "User option"
  body_nickname :: "string option"
  body_introduction :: "string option"

definition put_profile :: "deps \<Rightarrow> profile_request \<Rightarrow> database \<Rightarrow> handled" where
  "put_profile d req db =
     (case TokenRequest req of
        None \<Rightarrow> (NextError NoTokenProvided 400, db, [])
      | Some token \<Rightarrow>
          (case UserRequest req of
             None \<Rightarrow> (NextError Unauthorized 401, db, [])
           | Some userRequest \<Rightarrow>
               if \<not> hasPermission userRequest USER_UPDATE_PROFILE
               then (NextError Unauthorized 401, db, [])
               else if falsy (body_nickname req) \<and> falsy (body_introduction req)
               then (End 304, db, [])
               else if \<not> falsy (body_nickname req) \<and>
                       \<not> isValidNickname d (text_of (body_nickname req))
               then (NextError InvalidNickname 400, db, [])
               else if \<not> falsy (body_introduction req) \<and>
                       \<not> isValidIntroduction d (body_introduction req)
               then (NextError InvalidIntroduction 400, db, [])
               else (End 204,
                     updateUserProfile (User_id userRequest) (body_nickname req)
                       (body_introduction req) db,
                     [UpdateUserProfile (User_id userRequest) (body_nickname req)
                        (body_introduction req)])))"

section \<open>Sample data\<close>

text \<open>Concrete inputs on which the theorems below are instantiated and evaluated.\<close>

definition sample_uuid :: string where
  "sample_uuid = ''123e4567-e89b-12d3-a456-426614174000''"

definition sample_user :: UserRow where
  "sample_user = \<lparr> user_id = ''11111111-1111-4111-8111-111111111111'', user_username = ''ann'',
                    user_password = ''hash:p@ssW0rd'', user_email = ''ann@x.com'',
                    user_nickname = ''Ann'', user_introduction = [] \<rparr>"

definition sample_chapter :: "string \<Rightarrow> int \<Rightarrow> ComicChapterInterface" where
  "sample_chapter nm t =
     \<lparr> chapter_id = nm, chapter_name = nm, chapter_comicId = sample_uuid,
       chapter_postedBy = ''11111111-1111-4111-8111-111111111111'', chapter_viewType = 1,
       chapter_createdAt = t, chapter_updatedAt = t, chapter_length = 0 \<rparr>"

definition sample_db :: database where
  "sample_db =
     \<lparr> users = [sample_user],
       resources = [\<lparr>resource_id = ''r1'', resource_fileName = ''cover.png''\<rparr>],
       comics = [],
       comic_tags = [\<lparr>tag_id = ''t1'', tag_keyword = ''action''\<rparr>,
                     \<lparr>tag_id = ''t2'', tag_keyword = ''drama''\<rparr>],
       comic_book_tags = [],
       chapters = [sample_chapter ''c'' 30, sample_chapter ''a'' 10, sample_chapter ''d'' 40,
                   sample_chapter ''b'' 20, sample_chapter ''e'' 50] \<rparr>"

text \<open>An engine without constraints, and one that rejects a tag id no tag row has.\<close>

definition permissive :: engine where
  "permissive s db = None"

definition tags_checked :: engine where
  "tags_checked s db =
     (case s of
        InsertComicBookTag rows \<Rightarrow>
          if list_all (\<lambda>r. cbt_tagId r \<in> tag_id ` set (comic_tags db)) rows then None
          else Some (Error ''foreign key constraint fails'')
      | _ \<Rightarrow> None)"

definition no_charMap :: "char \<Rightarrow> string option" where
  "no_charMap c = None"

definition sample_deps :: deps where
  "sample_deps =
     \<lparr> isValidNickname = (\<lambda>n. length n \<le> 20),
       isValidIntroduction = (\<lambda>i. length (text_of i) \<le> 200),
       isEmail = (\<lambda>e. CHR ''@'' \<in> set e),
       compareSync = (\<lambda>p h. h = ''hash:'' @ p),
       hashSync = (\<lambda>p. ''hash:'' @ p),
       generateToken = (\<lambda>i t. ''token:'' @ i) \<rparr>"

definition sample_account :: "PermissionEnum list \<Rightarrow> User" where
  "sample_account ps =
     \<lparr> User_id = ''11111111-1111-4111-8111-111111111111'', User_username = ''ann'',
       User_email = ''ann@x.com'', User_nickname = ''Ann'', User_permissions = ps \<rparr>"

text \<open>A comic as createComic builds it, and the database after it is stored.\<close>

definition sample_name :: string where
  "sample_name = ''  One Piece: Vol.1 (NEW!)''"

definition sample_comic :: "string option \<Rightarrow> ComicInterface" where
  "sample_comic thumbnail =
     \<lparr> comic_id = sample_uuid, comic_name = sample_name,
       comic_description = ''pirates'', comic_postedBy = ''11111111-1111-4111-8111-111111111111'',
       comic_thumbnail = thumbnail, comic_createdAt = 1000, comic_updatedAt = 1000,
       comic_slug = ''one-piece-vol1-new'', comic_likes = 0, comic_views = 0,
       comic_author = ''Oda'', comic_category = ''Comic'' \<rparr>"

definition stored_db :: database where
  "stored_db = sample_db\<lparr>comics := [sample_comic (Some ''r1'')],
                          comic_book_tags := [\<lparr>cbt_comicId = sample_uuid, cbt_tagId = ''t1''\<rparr>,
                                              \<lparr>cbt_comicId = sample_uuid, cbt_tagId = ''t2''\<rparr>]\<rparr>"

definition sample_filter :: "nat \<Rightarrow> nat \<Rightarrow> chapter_filter" where
  "sample_filter l p = \<lparr>filter_limit = Some (number_of_nat l), filter_page = Some (number_of_nat p),
                         filter_sortedBy = None, filter_order = None\<rparr>"

text \<open>An engine that has lost its connection rejects every statement.\<close>

definition disconnected :: engine where
  "disconnected s db = Some (Error ''connect ECONNREFUSED'')"

section \<open>Shared lemmas\<close>

subsection \<open>The id guard\<close>

lemma not_uuid_bad_id: "\<not> isUUID ident \<Longrightarrow> bad_id ident"
  by (simp add: bad_id_def)

lemma uuid_good_id: "isUUID ident \<Longrightarrow> \<not> bad_id ident"
  by (auto simp: bad_id_def isUUID_def)

lemma sample_uuid_isUUID: "isUUID sample_uuid"
  by (simp add: sample_uuid_def isUUID_def is_hex_def)

subsection \<open>What slugify lets through\<close>

lemma removed_chars_codes:
  "x \<in> set removed_chars \<Longrightarrow>
   (of_char x :: nat) \<in> {42, 43, 126, 46, 40, 41, 39, 34, 33, 58, 64}"
  by (auto simp: removed_chars_def)

lemma of_char_toLowerCase:
  "is_upper c \<Longrightarrow> (of_char (toLowerCase c) :: nat) = of_char c + 32"
  by (auto simp: toLowerCase_def is_upper_def Let_def)

lemma toLowerCase_not_upper: "\<not> is_upper (toLowerCase c)"
proof (cases "is_upper c")
  case True
  from of_char_toLowerCase [OF True] True show ?thesis
    by (auto simp: is_upper_def Let_def)
next
  case False
  then show ?thesis by (simp add: toLowerCase_def)
qed

lemma toLowerCase_removed:
  assumes "toLowerCase c \<in> set removed_chars"
  shows "c \<in> set removed_chars"
proof (cases "is_upper c")
  case True
  from removed_chars_codes [OF assms] of_char_toLowerCase [OF True] True
  show ?thesis by (auto simp: is_upper_def Let_def)
next
  case False
  with assms show ?thesis by (simp add: toLowerCase_def)
qed

lemma set_replace_spaces: "set (replace_spaces s) \<subseteq> insert CHR ''-'' (set s)"
proof (induction s rule: replace_spaces.induct)
  case 1
  then show ?case by simp
next
  case (2 c cs)
  then show ?case
    by (auto dest: set_dropWhileD)
qed

lemma set_trim: "set (trim s) \<subseteq> set s"
  by (auto simp: trim_def dest!: set_dropWhileD)

lemma map_char_kept: "c \<in> set (map_char cm ch) \<Longrightarrow> c \<notin> set removed_chars"
  by (auto simp: map_char_def Let_def split: option.splits if_splits)

lemma dash_kept: "CHR ''-'' \<notin> set removed_chars"
  by (simp add: removed_chars_def)

lemma slugify_chars:
  assumes "ch \<in> set (slugify cm name)"
  shows "\<not> is_upper ch \<and> ch \<notin> set removed_chars"
proof -
  from assms obtain x where
    x: "x \<in> set (replace_spaces (trim (concat (map (map_char cm) name))))"
    and ch: "ch = toLowerCase x"
    by (auto simp: slugify_def)
  from x set_replace_spaces have "x = CHR ''-'' \<or> x \<in> set (trim (concat (map (map_char cm) name)))"
    by blast
  with set_trim have "x = CHR ''-'' \<or> x \<in> set (concat (map (map_char cm) name))"
    by blast
  then have "x \<notin> set removed_chars"
    using dash_kept map_char_kept by auto
  with ch toLowerCase_removed toLowerCase_not_upper show ?thesis
    by blast
qed

lemma sample_slug: "slugify no_charMap sample_name = ''one-piece-vol1-new''"
  by code_simp

subsection \<open>The outcomes of the two transactions\<close>

lemma createComic_Inr:
  assumes "createComic cm eng uuid now name description postedBy author category tags thumbnail db
             = (Inr c, db', sent)"
  shows "c = \<lparr> comic_id = uuid, comic_name = name, comic_description = description,
               comic_postedBy = postedBy, comic_thumbnail = thumbnail,
               comic_createdAt = now, comic_updatedAt = now,
               comic_slug = slugify cm name, comic_likes = 0, comic_views = 0,
               comic_author = author, comic_category = category \<rparr>"
    and "db' = db\<lparr>comics := comics db @ [c],
                   comic_book_tags := comic_book_tags db @
                     map (\<lambda>tag. \<lparr>cbt_comicId = uuid, cbt_tagId = tag\<rparr>) tags\<rparr>"
    and "sent = [Begin, InsertComic c,
                 InsertComicBookTag (map (\<lambda>tag. \<lparr>cbt_comicId = uuid, cbt_tagId = tag\<rparr>) tags),
                 Commit]"
  using assms
  by (auto simp: createComic_def Let_def split: option.splits)

lemma createComic_Inl:
  assumes "createComic cm eng uuid now name description postedBy author category tags thumbnail db
             = (Inl e, db', sent)"
  shows "db' = db"
    and "\<exists>s tx. s \<in> set sent \<and> eng s tx = Some e"
    and "sent = [Begin] \<or> last sent = Rollback"
  using assms
  by (auto simp: createComic_def Let_def split: option.splits)

lemma createComic_accepted:
  assumes "\<forall>s tx. eng s tx = None"
  shows "\<exists>c db' sent.
           createComic cm eng uuid now name description postedBy author category tags thumbnail db
             = (Inr c, db', sent)"
  using assms by (simp add: createComic_def Let_def)

lemma updateComic_Inr:
  assumes "updateComic cm eng now ident name description author category tags thumbnail db
             = (Inr u, db', sent)"
  shows "comics db' =
           map (apply_update ident
                  \<lparr> upd_name = name, upd_description = description, upd_updatedAt = now,
                    upd_slug = slugify cm name, upd_author = author,
                    upd_category = category, upd_thumbnail = thumbnail \<rparr>) (comics db)"
  using assms
  by (auto simp: updateComic_def Let_def split: option.splits if_splits)

lemma sample_create:
  "createComic no_charMap permissive sample_uuid 1000 sample_name ''pirates''
     ''11111111-1111-4111-8111-111111111111'' ''Oda'' ''Comic'' [''t1'', ''t2''] (Some ''r1'')
     sample_db =
   (Inr (sample_comic (Some ''r1'')), stored_db,
    [Begin, InsertComic (sample_comic (Some ''r1'')),
     InsertComicBookTag [\<lparr>cbt_comicId = sample_uuid, cbt_tagId = ''t1''\<rparr>,
                         \<lparr>cbt_comicId = sample_uuid, cbt_tagId = ''t2''\<rparr>],
     Commit])"
  by (simp add: createComic_def Let_def permissive_def sample_comic_def sample_slug
        stored_db_def sample_db_def)

lemma sample_create_rejected:
  "fst (createComic no_charMap tags_checked sample_uuid 1000 sample_name ''pirates''
     ''11111111-1111-4111-8111-111111111111'' ''Oda'' ''Comic'' [''t1'', ''zz''] (Some ''r1'')
     sample_db) = Inl (Error ''foreign key constraint fails'')"
  by (simp add: createComic_def tags_checked_def sample_db_def Let_def)

subsection \<open>The tag join after a creation\<close>

lemma join_tag_ids:
  assumes "\<forall>t \<in> set tags. length (filter (\<lambda>x. tag_id x = t) tbl) = 1"
  shows "map tag_id
           (concat (map (\<lambda>t1. map (\<lambda>t2. \<lparr>tag_id = cbt_tagId t1, tag_keyword = tag_keyword t2\<rparr>)
                                  (filter (\<lambda>t2. tag_id t2 = cbt_tagId t1) tbl))
                        (map (\<lambda>tag. \<lparr>cbt_comicId = uuid, cbt_tagId = tag\<rparr>) tags))) = tags"
  using assms
proof (induction tags)
  case Nil
  then show ?case by simp
next
  case (Cons t ts)
  from Cons.prems have "length (filter (\<lambda>x. tag_id x = t) tbl) = 1"
    by simp
  then obtain x where "filter (\<lambda>x. tag_id x = t) tbl = [x]"
    by (auto simp: length_Suc_conv)
  with Cons show ?case
    by simp
qed

lemma select_comic_tags_created:
  assumes "\<forall>r \<in> set (comic_book_tags db). cbt_comicId r \<noteq> uuid"
    and "\<forall>t \<in> set tags. length (filter (\<lambda>x. tag_id x = t) (comic_tags db)) = 1"
  shows "map tag_id
           (select_comic_tags
              (db\<lparr>comics := cs,
                  comic_book_tags := comic_book_tags db @
                    map (\<lambda>tag. \<lparr>cbt_comicId = uuid, cbt_tagId = tag\<rparr>) tags\<rparr>) uuid) = tags"
proof -
  from assms(1) have "filter (\<lambda>t1. cbt_comicId t1 = uuid) (comic_book_tags db) = []"
    by (simp add: filter_empty_conv)
  moreover have "filter (\<lambda>t1. cbt_comicId t1 = uuid)
                   (map (\<lambda>tag. \<lparr>cbt_comicId = uuid, cbt_tagId = tag\<rparr>) tags) =
                 map (\<lambda>tag. \<lparr>cbt_comicId = uuid, cbt_tagId = tag\<rparr>) tags"
    by (simp add: filter_map comp_def)
  ultimately show ?thesis
    using join_tag_ids [OF assms(2), of uuid]
    by (simp add: select_comic_tags_def)
qed

lemma find_fresh_last:
  assumes "\<forall>x \<in> set xs. \<not> P x" and "P y"
  shows "find P (xs @ [y]) = Some y"
  using assms by (induction xs) auto

text \<open>
  With a stored thumbnail and stored tags a created comic is read back with the tags
  it was given.
\<close>

lemma created_comic_read_back:
  assumes created:
      "createComic cm eng uuid now name description postedBy author category tags thumbnail db
         = (Inr c, db', sent)"
    and valid: "isUUID uuid"
    and fresh: "\<forall>x \<in> set (comics db). comic_id x \<noteq> uuid"
               "\<forall>r \<in> set (comic_book_tags db). cbt_comicId r \<noteq> uuid"
    and thumb: "thumbnail = Some r" "r \<in> resource_id ` set (resources db)"
    and known: "\<forall>t \<in> set tags. length (filter (\<lambda>x. tag_id x = t) (comic_tags db)) = 1"
  shows "\<exists>v. fst (getComic uuid db') = Inr v \<and> view_comic v = c \<and>
             mset (map tag_id (view_tags v)) = mset tags"
proof -
  note c = createComic_Inr [OF created]
  have id: "comic_id c = uuid" and th: "comic_thumbnail c = Some r"
    using c(1) thumb(1) by simp_all
  have found: "find (\<lambda>x. comic_id x = uuid) (comics db') = Some c"
    using c(2) fresh(1) id by (simp add: find_fresh_last)
  from thumb(2) have "find (\<lambda>x. resource_id x = r) (resources db') \<noteq> None"
    using c(2) by (auto simp: find_None_iff)
  then obtain res where res: "select_resource db' (comic_thumbnail c) = Some res"
    using th by (auto simp: select_resource_def)
  have "map tag_id (select_comic_tags db' uuid) = tags"
    using select_comic_tags_created [OF fresh(2) known] c(2) by simp
  then have tags: "mset (map tag_id (select_comic_tags db' uuid)) = mset tags"
    by (simp only:)
  have "fst (getComic uuid db') =
          Inr \<lparr> view_comic = c, view_thumbnailImg = resource_fileName res,
                 view_tags = select_comic_tags db' uuid \<rparr>"
    using uuid_good_id [OF valid] found res by (simp add: getComic_def Let_def)
  with tags show ?thesis
    by simp
qed

subsection \<open>Products of small natural numbers are exact\<close>

lemma bitlen_bound: "n < 2 ^ k \<Longrightarrow> bitlen n \<le> k"
proof (induction k arbitrary: n)
  case 0
  then show ?case by (simp add: bitlen.simps)
next
  case (Suc k)
  show ?case
  proof (cases "n = 0")
    case True
    then show ?thesis by (simp add: bitlen.simps)
  next
    case False
    from Suc.prems have "n div 2 < 2 ^ k" by auto
    then have "bitlen (n div 2) \<le> k" by (rule Suc.IH)
    with False show ?thesis by (subst bitlen.simps) simp
  qed
qed

lemma round_double_small:
  assumes "n < 2 ^ 53"
  shows "round_double False n 0 = Finite False n 0"
proof -
  from bitlen_bound [OF assms] have "bitlen n \<le> 53" .
  then show ?thesis
    by (simp add: round_double_def Let_def)
qed

lemma number_of_nat_small: "n < 2 ^ 53 \<Longrightarrow> number_of_nat n = Finite False n 0"
  by (simp add: number_of_nat_def round_double_small)

lemma times_small:
  assumes "p < 2 ^ 53" and "l < 2 ^ 53" and "p * l < 2 ^ 53"
  shows "times_number (number_of_nat p) (number_of_nat l) = Finite False (p * l) 0"
  using assms by (simp add: number_of_nat_small round_double_small)

lemma offset_small:
  assumes "p < 2 ^ 53" and "l < 2 ^ 53" and "p * l < 2 ^ 53"
  shows "count_of (or_number (times_number (number_of_nat p) (number_of_nat l)) (Finite False 0 0))
           = Some (p * l)"
  using times_small [OF assms] by (simp add: or_number_def)

lemma limit_small:
  assumes "l < 2 ^ 53"
  shows "\<exists>n. count_of (or_number (number_of_nat l) (Finite False 3 0)) = Some n"
  using assms by (simp add: number_of_nat_small or_number_def)

lemma bitlen_54: "bitlen 9007199515875289 = 54"
  by (simp add: bitlen.simps)

lemma bitlen_53: "bitlen 4503599757937644 = 53"
  by (simp add: bitlen.simps)

lemma big_product:
  "round_double False 9007199515875289 0 = Finite False 4503599757937644 1"
  by (simp add: round_double_def bitlen_54 bitlen_53 Let_def)

subsection \<open>Ordering and paging of chapters\<close>

lemma singleton_keys_sorted:
  "sorted (map (\<lambda>c. [f c]) xs) \<Longrightarrow> sorted (map f xs)"
  for f :: "'a \<Rightarrow> int"
  by (induction xs) auto

lemma window_sorted:
  "sorted (map f xs) \<Longrightarrow> sorted (map f (take n (drop m xs)))"
  for f :: "'a \<Rightarrow> int"
  by (simp add: take_map [symmetric] drop_map [symmetric] sorted_wrt_take sorted_wrt_drop)

lemma run_by_createdAt:
  assumes "sel_orderBy q = ''createdAt''" and "sel_order q = Asc"
    and "run_chapter_select q rows = Inr rs"
  shows "sorted (map chapter_createdAt rs)"
proof -
  let ?m = "filter (\<lambda>c. chapter_comicId c = sel_comicId q) rows"
  have "sorted (map (\<lambda>c. [chapter_createdAt c]) (sort_key (\<lambda>c. [chapter_createdAt c]) ?m))"
    by (rule sorted_sort_key)
  then have "sorted (map chapter_createdAt (sort_key (\<lambda>c. [chapter_createdAt c]) ?m))"
    by (rule singleton_keys_sorted)
  then have "\<And>n k. sorted (map chapter_createdAt
      (take n (drop k (sort_key (\<lambda>c. [chapter_createdAt c]) ?m))))"
    by (rule window_sorted)
  with assms show ?thesis
    by (auto simp: run_chapter_select_def chapter_column_def Let_def split: option.splits)
qed

lemma run_known_column:
  assumes "sel_orderBy q = ''createdAt''"
    and "count_of (sel_limit q) = Some n" and "count_of (sel_offset q) = Some k"
  shows "\<exists>rs. run_chapter_select q rows = Inr rs"
  using assms by (simp add: run_chapter_select_def chapter_column_def Let_def)

lemma sample_page:
  "getChaptersFromComic sample_uuid (Some (sample_filter 2 1)) sample_db =
     (Inr [sample_chapter ''c'' 30, sample_chapter ''d'' 40], sample_db,
      [SelectChapters \<lparr>sel_comicId = sample_uuid, sel_limit = Finite False 2 0,
                        sel_offset = Finite False 2 0,
                        sel_orderBy = ''createdAt'', sel_order = Asc\<rparr>])"
  using uuid_good_id [OF sample_uuid_isUUID]
  by (simp add: getChaptersFromComic_def chapters_query_def sample_filter_def Let_def
        run_chapter_select_def chapter_column_def sample_db_def sample_chapter_def
        number_of_nat_small round_double_small or_number_def)

section \<open>Permission to update the profile\<close>

text \<open>
  C1. For every PUT /profile request that carries a token and a resolved user whose
  permission set does not contain USER_UPDATE_PROFILE, the handler answers
  401 Unauthorized, leaves the database as it was and sends no statement; and whenever
  the handler of an authenticated request sends a statement, the user holds that
  permission.
\<close>

theorem put_profile_needs_permission:
  assumes "TokenRequest req = Some token" and "UserRequest req = Some u"
  shows "(USER_UPDATE_PROFILE \<notin> set (User_permissions u) \<longrightarrow>
            put_profile d req db = (NextError Unauthorized 401, db, [])) \<and>
         (snd (snd (put_profile d req db)) \<noteq> [] \<longrightarrow>
            USER_UPDATE_PROFILE \<in> set (User_permissions u))"
  using assms by (simp add: put_profile_def hasPermission_def)

theorem put_profile_needs_permission_witness:
  "put_profile sample_deps
     \<lparr>TokenRequest = Some ''tok'', UserRequest = Some (sample_account [OTHER_PERMISSION 1]),
      body_nickname = Some ''Annie'', body_introduction = None\<rparr> sample_db =
     (NextError Unauthorized 401, sample_db, []) \<and>
   snd (snd (put_profile sample_deps
     \<lparr>TokenRequest = Some ''tok'', UserRequest = Some (sample_account [USER_UPDATE_PROFILE]),
      body_nickname = Some ''Annie'', body_introduction = None\<rparr> sample_db)) =
     [UpdateUserProfile ''11111111-1111-4111-8111-111111111111'' (Some ''Annie'') None]"
proof -
  have a: "USER_UPDATE_PROFILE \<notin> set (User_permissions (sample_account [OTHER_PERMISSION 1]))"
    by (simp add: sample_account_def)
  have b: "put_profile sample_deps
     \<lparr>TokenRequest = Some ''tok'', UserRequest = Some (sample_account [OTHER_PERMISSION 1]),
      body_nickname = Some ''Annie'', body_introduction = None\<rparr> sample_db =
     (NextError Unauthorized 401, sample_db, [])"
    using put_profile_needs_permission
      [of "\<lparr>TokenRequest = Some ''tok'', UserRequest = Some (sample_account [OTHER_PERMISSION 1]),
            body_nickname = Some ''Annie'', body_introduction = None\<rparr>"
          "''tok''" "sample_account [OTHER_PERMISSION 1]" sample_deps sample_db] a
    by simp
  have c: "snd (snd (put_profile sample_deps
     \<lparr>TokenRequest = Some ''tok'', UserRequest = Some (sample_account [USER_UPDATE_PROFILE]),
      body_nickname = Some ''Annie'', body_introduction = None\<rparr> sample_db)) =
     [UpdateUserProfile ''11111111-1111-4111-8111-111111111111'' (Some ''Annie'') None]"
    by (simp add: put_profile_def hasPermission_def sample_account_def sample_deps_def
          falsy_def text_of_def)
  from b c show ?thesis by simp
qed

section \<open>Rejection of ids that are not UUIDs\<close>

text \<open>
  C2, as amended. For every id that is not a well-formed UUID, each of getComic,
  updateComic, deleteComic, updateViewComic, hasComic, getChapter, getChaptersFromComic
  and updateChapterLength throws \<open>Error("id is required")\<close>, leaves the database as
  it was and sends no statement. searchComic is not among them: it has no such guard.
\<close>

theorem non_uuid_id_rejected:
  assumes "\<not> isUUID ident"
  shows "getComic ident db = (Inl (Error ''id is required''), db, []) \<and>
         updateComic cm eng now ident name description author category tags thumbnail db =
           (Inl (Error ''id is required''), db, []) \<and>
         deleteComic ident db = (Inl (Error ''id is required''), db, []) \<and>
         updateViewComic ident db = (Inl (Error ''id is required''), db, []) \<and>
         hasComic ident db = (Inl (Error ''id is required''), db, []) \<and>
         getChapter ident db = (Inl (Error ''id is required''), db, []) \<and>
         getChaptersFromComic ident filt db = (Inl (Error ''id is required''), db, []) \<and>
         updateChapterLength ident len db = (Inl (Error ''id is required''), db, [])"
  using not_uuid_bad_id [OF assms]
  by (simp add: getComic_def updateComic_def deleteComic_def updateViewComic_def
        hasComic_def getChapter_def getChaptersFromComic_def updateChapterLength_def)

theorem non_uuid_id_rejected_witness:
  "\<not> isUUID ''42'' \<and>
   getComic ''42'' sample_db = (Inl (Error ''id is required''), sample_db, []) \<and>
   deleteComic ''42'' sample_db = (Inl (Error ''id is required''), sample_db, []) \<and>
   getChaptersFromComic ''42'' None sample_db = (Inl (Error ''id is required''), sample_db, [])"
proof -
  have a: "\<not> isUUID ''42''"
    by (simp add: isUUID_def)
  from non_uuid_id_rejected [OF a, of sample_db] a show ?thesis
    by blast
qed

text \<open>
  C2 as stated fails for searchComic: with the id \<open>not-a-uuid\<close> it throws nothing and
  sends its lookup to the database.
\<close>

theorem searchComic_accepts_non_uuid:
  "\<not> isUUID ''not-a-uuid'' \<and>
   searchComic \<lparr>query_slug = None, query_id = Some ''not-a-uuid''\<rparr> sample_db =
     (Inr None, sample_db, [SelectComicBySlugOrId [] ''not-a-uuid''])"
  by (simp add: isUUID_def searchComic_def sample_db_def)

section \<open>Creating a comic in one transaction\<close>

text \<open>
  C3. Whatever the engine answers, createComic ends in one of two ways. Either it
  returns the comic, and the database is the old one with the comic row and one
  tag-association row for each tag added, the last statement being the commit and no
  rollback sent. Or it throws the error with which the engine rejected one of the
  statements sent, the database is exactly the old one, and, unless the transaction
  could not even be opened, the last statement is the rollback. When the engine
  rejects nothing, the comic is returned.
\<close>

theorem createComic_transaction:
  assumes "createComic cm eng uuid now name description postedBy author category tags thumbnail db
             = (res, db', sent)"
  shows "((\<exists>c. res = Inr c \<and> comic_id c = uuid \<and>
              db' = db\<lparr>comics := comics db @ [c],
                        comic_book_tags := comic_book_tags db @
                          map (\<lambda>tag. \<lparr>cbt_comicId = uuid, cbt_tagId = tag\<rparr>) tags\<rparr> \<and>
              last sent = Commit \<and> Rollback \<notin> set sent)
          \<or> (\<exists>e. res = Inl e \<and> db' = db \<and> (\<exists>s tx. s \<in> set sent \<and> eng s tx = Some e) \<and>
                  (sent = [Begin] \<or> last sent = Rollback))) \<and>
         ((\<forall>s tx. eng s tx = None) \<longrightarrow> (\<exists>c. res = Inr c))"
proof (cases res)
  case (Inr c)
  with assms createComic_Inr [of cm eng uuid now name description postedBy author category
      tags thumbnail db c db' sent]
  show ?thesis by auto
next
  case (Inl e)
  with assms createComic_Inl [of cm eng uuid now name description postedBy author category
      tags thumbnail db e db' sent]
    createComic_accepted [of eng cm uuid now name description postedBy author category
      tags thumbnail db]
  show ?thesis by auto
qed

theorem createComic_transaction_witness:
  "createComic no_charMap permissive sample_uuid 1000 sample_name ''pirates''
     ''11111111-1111-4111-8111-111111111111'' ''Oda'' ''Comic'' [''t1'', ''t2''] (Some ''r1'')
     sample_db =
   (Inr (sample_comic (Some ''r1'')), stored_db,
    [Begin, InsertComic (sample_comic (Some ''r1'')),
     InsertComicBookTag [\<lparr>cbt_comicId = sample_uuid, cbt_tagId = ''t1''\<rparr>,
                         \<lparr>cbt_comicId = sample_uuid, cbt_tagId = ''t2''\<rparr>],
     Commit]) \<and>
   fst (createComic no_charMap tags_checked sample_uuid 1000 sample_name ''pirates''
     ''11111111-1111-4111-8111-111111111111'' ''Oda'' ''Comic'' [''t1'', ''zz''] (Some ''r1'')
     sample_db) = Inl (Error ''foreign key constraint fails'') \<and>
   fst (snd (createComic no_charMap tags_checked sample_uuid 1000 sample_name ''pirates''
     ''11111111-1111-4111-8111-111111111111'' ''Oda'' ''Comic'' [''t1'', ''zz''] (Some ''r1'')
     sample_db)) = sample_db"
proof -
  obtain res db' sent where
    e: "createComic no_charMap tags_checked sample_uuid 1000 sample_name ''pirates''
          ''11111111-1111-4111-8111-111111111111'' ''Oda'' ''Comic'' [''t1'', ''zz''] (Some ''r1'')
          sample_db = (res, db', sent)"
    by (rule prod_cases3)
  with sample_create_rejected have r: "res = Inl (Error ''foreign key constraint fails'')"
    by simp
  from createComic_transaction [OF e] r have "db' = sample_db"
    by auto
  with e r sample_create show ?thesis
    by simp
qed

section \<open>Signing in\<close>

text \<open>
  C4, as amended. For every signin request that gives a username and a password, the
  answer is the 400 error UserNotFound when no user has the username, and the 400
  error IncorrectPassword when the user exists and the password does not match the
  stored hash. Both carry the status 400; their messages differ.
\<close>

theorem signin_failures:
  assumes "\<not> falsy (signin_username b)" and "\<not> falsy (signin_password b)"
  shows "(getUserFromUsername (text_of (signin_username b)) db = None \<longrightarrow>
            fst (signin d now b db) = NextError UserNotFound 400) \<and>
         (\<forall>user. getUserFromUsername (text_of (signin_username b)) db = Some user \<and>
                 \<not> compareSync d (text_of (signin_password b)) (user_password user) \<longrightarrow>
            fst (signin d now b db) = NextError IncorrectPassword 400)"
  using assms by (simp add: signin_def)

theorem signin_failures_witness:
  "fst (signin sample_deps 0 \<lparr>signin_username = Some ''bob'', signin_password = Some ''guess''\<rparr>
          sample_db) = NextError UserNotFound 400 \<and>
   fst (signin sample_deps 0 \<lparr>signin_username = Some ''ann'', signin_password = Some ''guess''\<rparr>
          sample_db) = NextError IncorrectPassword 400"
proof -
  have a: "getUserFromUsername ''bob'' sample_db = None"
    by (simp add: getUserFromUsername_def sample_db_def sample_user_def)
  have b: "getUserFromUsername ''ann'' sample_db = Some sample_user"
    by (simp add: getUserFromUsername_def sample_db_def sample_user_def)
  have c: "\<not> compareSync sample_deps ''guess'' (user_password sample_user)"
    by (simp add: sample_deps_def sample_user_def)
  from signin_failures
      [of "\<lparr>signin_username = Some ''bob'', signin_password = Some ''guess''\<rparr>" sample_db
          sample_deps 0] a
  have "fst (signin sample_deps 0
               \<lparr>signin_username = Some ''bob'', signin_password = Some ''guess''\<rparr> sample_db) =
          NextError UserNotFound 400"
    by (simp add: falsy_def text_of_def)
  moreover from signin_failures
      [of "\<lparr>signin_username = Some ''ann'', signin_password = Some ''guess''\<rparr>" sample_db
          sample_deps 0] b c
  have "fst (signin sample_deps 0
               \<lparr>signin_username = Some ''ann'', signin_password = Some ''guess''\<rparr> sample_db) =
          NextError IncorrectPassword 400"
    by (simp add: falsy_def text_of_def)
  ultimately show ?thesis by simp
qed

text \<open>
  C4 as stated fails: the same wrong password is answered differently for the existing
  username \<open>ann\<close> and for the unknown username \<open>bob\<close>.
\<close>

theorem signin_reveals_username:
  "fst (signin sample_deps 0 \<lparr>signin_username = Some ''ann'', signin_password = Some ''guess''\<rparr>
          sample_db) \<noteq>
   fst (signin sample_deps 0 \<lparr>signin_username = Some ''bob'', signin_password = Some ''guess''\<rparr>
          sample_db)"
  by (simp add: signin_def falsy_def text_of_def getUserFromUsername_def sample_db_def
        sample_user_def sample_deps_def)

section \<open>Reading back a created comic\<close>

text \<open>
  C5. The claim is that getComic, on the id of a comic createComic has created,
  returns a record whose tags are exactly the tags given at creation. The code breaks
  it for a comic created without a thumbnail, which createComic allows: whenever such
  a creation succeeds under a valid id that no stored comic carries, getComic on that
  id, in the database createComic leaves, returns no record. After its three
  statements it throws the TypeError of reading \<open>fileName\<close> off the resource it did
  not find.
\<close>

theorem created_without_thumbnail_unreadable:
  assumes "createComic cm eng uuid now name description postedBy author category tags None db
             = (Inr c, db', sent)"
    and "isUUID uuid"
    and "\<forall>x \<in> set (comics db). comic_id x \<noteq> uuid"
  shows "\<exists>m. getComic uuid db' =
           (Inl (TypeError m), db',
            [SelectComic uuid, SelectResource None, SelectComicTags uuid])"
proof -
  note c = createComic_Inr [OF assms(1)]
  have id: "comic_id c = uuid" and th: "comic_thumbnail c = None"
    using c(1) by simp_all
  have "find (\<lambda>x. comic_id x = uuid) (comics db') = Some c"
    using c(2) assms(3) id by (simp add: find_fresh_last)
  with th uuid_good_id [OF assms(2)] show ?thesis
    by (simp add: getComic_def Let_def select_resource_def)
qed

theorem created_without_thumbnail_unreadable_witness:
  "isUUID sample_uuid \<and> comics sample_db = [] \<and>
   fst (createComic no_charMap permissive sample_uuid 1000 sample_name ''pirates''
          ''11111111-1111-4111-8111-111111111111'' ''Oda'' ''Comic'' [''t1'', ''t2''] None
          sample_db) = Inr (sample_comic None) \<and>
   fst (getComic sample_uuid
          (fst (snd (createComic no_charMap permissive sample_uuid 1000 sample_name ''pirates''
             ''11111111-1111-4111-8111-111111111111'' ''Oda'' ''Comic'' [''t1'', ''t2''] None
             sample_db)))) =
     Inl (TypeError ''Cannot read properties of undefined (reading fileName)'')"
proof -
  obtain db' sent where
    e: "createComic no_charMap permissive sample_uuid 1000 sample_name ''pirates''
          ''11111111-1111-4111-8111-111111111111'' ''Oda'' ''Comic'' [''t1'', ''t2''] None
          sample_db = (Inr (sample_comic None), db', sent)"
    by (simp add: createComic_def Let_def permissive_def sample_comic_def sample_slug)
  have b: "comics sample_db = []"
    by (simp add: sample_db_def)
  then have f: "\<forall>x \<in> set (comics sample_db). comic_id x \<noteq> sample_uuid"
    by simp
  from created_without_thumbnail_unreadable [OF e sample_uuid_isUUID f]
  obtain m where m: "getComic sample_uuid db' =
      (Inl (TypeError m), db', [SelectComic sample_uuid, SelectResource None,
                                 SelectComicTags sample_uuid])"
    by blast
  have "fst (getComic sample_uuid db') =
          Inl (TypeError ''Cannot read properties of undefined (reading fileName)'')"
    using m by (auto simp: getComic_def Let_def split: if_splits option.splits)
  with e b sample_uuid_isUUID show ?thesis
    by simp
qed

section \<open>The slug of a comic\<close>

text \<open>
  C6. The slug slugify derives from any name has no capital letter and none of the
  characters \<open>* + ~ . ( ) ' " ! : @\<close>. The comic createComic returns and stores has
  the slug derived from its name; and after updateComic has succeeded, every comic with
  the updated id has the new name and the slug derived from it in the same way.
\<close>

theorem comic_slug_derived:
  "(\<forall>ch \<in> set (slugify cm name). \<not> is_upper ch \<and> ch \<notin> set removed_chars) \<and>
   (\<forall>c db' sent.
      createComic cm eng uuid now name description postedBy author category tags thumbnail db
        = (Inr c, db', sent) \<longrightarrow>
      comic_slug c = slugify cm name \<and> c \<in> set (comics db')) \<and>
   (\<forall>u db' sent.
      updateComic cm eng now ident name description author category tags thumbnail db
        = (Inr u, db', sent) \<longrightarrow>
      (\<forall>c \<in> set (comics db'). comic_id c = ident \<longrightarrow>
         comic_name c = name \<and> comic_slug c = slugify cm name))"
proof (intro conjI allI impI ballI)
  fix ch assume "ch \<in> set (slugify cm name)"
  then show "\<not> is_upper ch" and "ch \<notin> set removed_chars"
    using slugify_chars by blast+
next
  fix c db' sent
  assume a: "createComic cm eng uuid now name description postedBy author category tags thumbnail db
        = (Inr c, db', sent)"
  from createComic_Inr(1) [OF a] show "comic_slug c = slugify cm name"
    by simp
  from createComic_Inr(2) [OF a] show "c \<in> set (comics db')"
    by simp
next
  fix u db' sent c
  assume a: "updateComic cm eng now ident name description author category tags thumbnail db
        = (Inr u, db', sent)"
    and c: "c \<in> set (comics db')" and i: "comic_id c = ident"
  from c updateComic_Inr [OF a] obtain c0 where
    "c = apply_update ident
           \<lparr> upd_name = name, upd_description = description, upd_updatedAt = now,
             upd_slug = slugify cm name, upd_author = author,
             upd_category = category, upd_thumbnail = thumbnail \<rparr> c0"
    by auto
  with i show "comic_name c = name" and "comic_slug c = slugify cm name"
    by (auto simp: apply_update_def split: if_splits)
qed

theorem comic_slug_derived_witness:
  "slugify no_charMap sample_name = ''one-piece-vol1-new'' \<and>
   (\<exists>c db' sent.
      createComic no_charMap permissive sample_uuid 1000 sample_name ''pirates''
        ''11111111-1111-4111-8111-111111111111'' ''Oda'' ''Comic'' [''t1'', ''t2''] (Some ''r1'')
        sample_db = (Inr c, db', sent) \<and>
      comic_slug c = ''one-piece-vol1-new'') \<and>
   (\<exists>u db' sent.
      updateComic no_charMap permissive 2000 sample_uuid ''Naruto (Redux)'' ''ninjas'' ''Kishimoto''
        ''Comic'' [''t1''] None stored_db = (Inr u, db', sent) \<and>
      map comic_name (comics db') = [''Naruto (Redux)''] \<and>
      map comic_slug (comics db') = [''naruto-redux''])"
proof -
  note th = comic_slug_derived [where cm = no_charMap and eng = permissive]
  have s: "slugify no_charMap ''Naruto (Redux)'' = ''naruto-redux''"
    by code_simp
  obtain u db' sent where
    e: "updateComic no_charMap permissive 2000 sample_uuid ''Naruto (Redux)'' ''ninjas''
          ''Kishimoto'' ''Comic'' [''t1''] None stored_db = (Inr u, db', sent)"
    by (simp add: updateComic_def Let_def permissive_def uuid_good_id [OF sample_uuid_isUUID])
  from updateComic_Inr [OF e] have c: "\<exists>c. comics db' = [c] \<and> comic_id c = sample_uuid"
    by (simp add: stored_db_def apply_update_def sample_comic_def)
  then obtain c where c1: "comics db' = [c]" and c2: "comic_id c = sample_uuid"
    by blast
  from th e c1 c2 have "comic_name c = ''Naruto (Redux)'' \<and>
      comic_slug c = slugify no_charMap ''Naruto (Redux)''"
    by fastforce
  with c1 s have u: "map comic_name (comics db') = [''Naruto (Redux)''] \<and>
      map comic_slug (comics db') = [''naruto-redux'']"
    by simp
  from th sample_create have "comic_slug (sample_comic (Some ''r1'')) = slugify no_charMap sample_name"
    by blast
  with sample_slug sample_create e u show ?thesis
    by auto
qed

section \<open>Paging and ordering of chapters\<close>

text \<open>
  C7, as amended. For every call of getChaptersFromComic with a valid comic id and a
  filter that gives the limit L and the page P, the one statement sent has as offset
  the double-precision product of P and L, or 0 when that product is zero or NaN.
  When P and L are natural numbers below \<open>2 ^ 53\<close> whose product is below \<open>2 ^ 53\<close>,
  the offset is exactly that product, and rows are returned when sortedBy is absent.
  The statement orders by createdAt when sortedBy is absent and ascending when order
  is absent; when both are absent, the rows returned are in ascending order of
  createdAt.
\<close>

theorem getChaptersFromComic_paging:
  assumes "isUUID comicId" and "filter_limit f = Some L" and "filter_page f = Some P"
  shows "\<exists>q rows. getChaptersFromComic comicId (Some f) db = (rows, db, [SelectChapters q]) \<and>
           sel_offset q = or_number (times_number P L) (Finite False 0 0) \<and>
           (\<forall>p l. P = number_of_nat p \<and> L = number_of_nat l \<and>
                  p < 2 ^ 53 \<and> l < 2 ^ 53 \<and> p * l < 2 ^ 53 \<longrightarrow>
                  count_of (sel_offset q) = Some (p * l) \<and>
                  (filter_sortedBy f = None \<longrightarrow> (\<exists>rs. rows = Inr rs))) \<and>
           (filter_sortedBy f = None \<longrightarrow> sel_orderBy q = ''createdAt'') \<and>
           (filter_order f = None \<longrightarrow> sel_order q = Asc) \<and>
           (filter_sortedBy f = None \<and> filter_order f = None \<longrightarrow>
              (\<forall>rs. rows = Inr rs \<longrightarrow> sorted (map chapter_createdAt rs)))"
proof -
  let ?q = "chapters_query comicId (Some f)"
  let ?rows = "run_chapter_select ?q (chapters db)"
  have g: "getChaptersFromComic comicId (Some f) db = (?rows, db, [SelectChapters ?q])"
    using uuid_good_id [OF assms(1)] by (simp add: getChaptersFromComic_def Let_def)
  have off: "sel_offset ?q = or_number (times_number P L) (Finite False 0 0)"
    using assms(2,3) by (simp add: chapters_query_def)
  have lim: "sel_limit ?q = or_number L (Finite False 3 0)"
    using assms(2) by (simp add: chapters_query_def)
  have by1: "filter_sortedBy f = None \<longrightarrow> sel_orderBy ?q = ''createdAt''"
    by (simp add: chapters_query_def)
  have by2: "filter_order f = None \<longrightarrow> sel_order ?q = Asc"
    by (simp add: chapters_query_def)
  have small: "\<forall>p l. P = number_of_nat p \<and> L = number_of_nat l \<and>
                  p < 2 ^ 53 \<and> l < 2 ^ 53 \<and> p * l < 2 ^ 53 \<longrightarrow>
                  count_of (sel_offset ?q) = Some (p * l) \<and>
                  (filter_sortedBy f = None \<longrightarrow> (\<exists>rs. ?rows = Inr rs))"
  proof (intro allI impI conjI)
    fix p l :: nat
    assume a: "P = number_of_nat p \<and> L = number_of_nat l \<and>
                  p < 2 ^ 53 \<and> l < 2 ^ 53 \<and> p * l < 2 ^ 53"
    then show c: "count_of (sel_offset ?q) = Some (p * l)"
      using off offset_small [of p l] by simp
    assume s: "filter_sortedBy f = None"
    from a lim limit_small [of l] obtain n where "count_of (sel_limit ?q) = Some n"
      by auto
    with c s by1 run_known_column show "\<exists>rs. ?rows = Inr rs"
      by blast
  qed
  have srt: "filter_sortedBy f = None \<and> filter_order f = None \<longrightarrow>
          (\<forall>rs. ?rows = Inr rs \<longrightarrow> sorted (map chapter_createdAt rs))"
    using by1 by2 run_by_createdAt by blast
  show ?thesis
  proof (intro exI conjI)
    show "getChaptersFromComic comicId (Some f) db = (?rows, db, [SelectChapters ?q])"
      by (rule g)
    show "sel_offset ?q = or_number (times_number P L) (Finite False 0 0)"
      by (rule off)
    show "\<forall>p l. P = number_of_nat p \<and> L = number_of_nat l \<and>
                  p < 2 ^ 53 \<and> l < 2 ^ 53 \<and> p * l < 2 ^ 53 \<longrightarrow>
                  count_of (sel_offset ?q) = Some (p * l) \<and>
                  (filter_sortedBy f = None \<longrightarrow> (\<exists>rs. ?rows = Inr rs))"
      by (rule small)
    show "filter_sortedBy f = None \<longrightarrow> sel_orderBy ?q = ''createdAt''"
      by (rule by1)
    show "filter_order f = None \<longrightarrow> sel_order ?q = Asc"
      by (rule by2)
    show "filter_sortedBy f = None \<and> filter_order f = None \<longrightarrow>
            (\<forall>rs. ?rows = Inr rs \<longrightarrow> sorted (map chapter_createdAt rs))"
      by (rule srt)
  qed
qed

theorem getChaptersFromComic_paging_witness:
  "isUUID sample_uuid \<and>
   getChaptersFromComic sample_uuid (Some (sample_filter 2 1)) sample_db =
     (Inr [sample_chapter ''c'' 30, sample_chapter ''d'' 40], sample_db,
      [SelectChapters \<lparr>sel_comicId = sample_uuid, sel_limit = Finite False 2 0,
                        sel_offset = Finite False 2 0,
                        sel_orderBy = ''createdAt'', sel_order = Asc\<rparr>]) \<and>
   count_of (Finite False 2 0) = Some (1 * 2) \<and>
   sorted (map chapter_createdAt [sample_chapter ''c'' 30, sample_chapter ''d'' 40])"
proof -
  have l: "filter_limit (sample_filter 2 1) = Some (number_of_nat 2)"
    and p: "filter_page (sample_filter 2 1) = Some (number_of_nat 1)"
    and n: "filter_sortedBy (sample_filter 2 1) = None \<and> filter_order (sample_filter 2 1) = None"
    by (simp_all add: sample_filter_def)
  from getChaptersFromComic_paging [OF sample_uuid_isUUID l p, of sample_db] n sample_page
  have "sorted (map chapter_createdAt [sample_chapter ''c'' 30, sample_chapter ''d'' 40])"
    by auto
  with sample_uuid_isUUID sample_page show ?thesis
    by simp
qed

text \<open>
  C7 as stated fails above \<open>2 ^ 53\<close>: for the page 94906267 with the limit 94906267
  the offset sent is 9007199515875288, one less than the product of the two.
\<close>

theorem offset_above_2_53:
  "snd (snd (getChaptersFromComic sample_uuid (Some (sample_filter 94906267 94906267)) sample_db)) =
     [SelectChapters \<lparr>sel_comicId = sample_uuid, sel_limit = Finite False 94906267 0,
                       sel_offset = Finite False 4503599757937644 1,
                       sel_orderBy = ''createdAt'', sel_order = Asc\<rparr>] \<and>
   count_of (Finite False 4503599757937644 1) = Some 9007199515875288 \<and>
   (94906267 :: nat) * 94906267 = 9007199515875289"
  using uuid_good_id [OF sample_uuid_isUUID]
  by (simp add: getChaptersFromComic_def chapters_query_def sample_filter_def Let_def
        big_product or_number_def number_of_nat_small)

section \<open>Signing up with a taken username\<close>

text \<open>
  C8, as amended. For every signup request whose username belongs to an existing user,
  the database is left as it was. The answer is the 400 error of the first check that
  fails, in the order required fields, nickname, email, introduction; when all pass,
  it is the 500 error UnexpectedError if the engine rejects the lookup of the
  username, and the 400 error UserAlreadyExists otherwise.
\<close>

theorem signup_duplicate:
  assumes "hasUserByUsername (text_of (signup_username b)) db"
  shows "fst (snd (signup d eng uuid b db)) = db \<and>
         fst (signup d eng uuid b db) =
           (if falsy (signup_username b) \<or> falsy (signup_password b) \<or>
               falsy (signup_email b) \<or> falsy (signup_nickname b)
            then NextError MissingRequiredFields 400
            else if \<not> isValidNickname d (text_of (signup_nickname b))
            then NextError InvalidNickname 400
            else if \<not> isEmail d (text_of (signup_email b))
            then NextError InvalidEmail 400
            else if \<not> isValidIntroduction d (signup_introduction b)
            then NextError InvalidIntroduction 400
            else if eng (SelectUserByUsername (text_of (signup_username b))) db \<noteq> None
            then NextError UnexpectedError 500
            else NextError UserAlreadyExists 400)"
  using assms by (simp add: signup_def)

theorem signup_duplicate_witness:
  "hasUserByUsername ''ann'' sample_db \<and>
   signup sample_deps permissive sample_uuid
     \<lparr>signup_username = Some ''ann'', signup_password = Some ''s3cret'',
      signup_email = Some ''ann2@x.com'', signup_nickname = Some ''Ann'',
      signup_introduction = None\<rparr> sample_db =
   (NextError UserAlreadyExists 400, sample_db, [SelectUserByUsername ''ann'']) \<and>
   fst (signup sample_deps disconnected sample_uuid
     \<lparr>signup_username = Some ''ann'', signup_password = Some ''s3cret'',
      signup_email = Some ''ann2@x.com'', signup_nickname = Some ''Ann'',
      signup_introduction = None\<rparr> sample_db) = NextError UnexpectedError 500 \<and>
   fst (signup sample_deps permissive sample_uuid
     \<lparr>signup_username = Some ''ann'', signup_password = Some ''s3cret'',
      signup_email = Some ''not an address'', signup_nickname = Some ''Ann'',
      signup_introduction = None\<rparr> sample_db) = NextError InvalidEmail 400"
proof -
  let ?b = "\<lparr>signup_username = Some ''ann'', signup_password = Some ''s3cret'',
      signup_email = Some ''ann2@x.com'', signup_nickname = Some ''Ann'',
      signup_introduction = None\<rparr>"
  let ?c = "\<lparr>signup_username = Some ''ann'', signup_password = Some ''s3cret'',
      signup_email = Some ''not an address'', signup_nickname = Some ''Ann'',
      signup_introduction = None\<rparr>"
  have h: "hasUserByUsername ''ann'' sample_db"
    by (simp add: hasUserByUsername_def getUserFromUsername_def sample_db_def sample_user_def)
  then have a: "hasUserByUsername (text_of (signup_username ?b)) sample_db"
    and c: "hasUserByUsername (text_of (signup_username ?c)) sample_db"
    by (simp_all add: text_of_def)
  have "fst (signup sample_deps permissive sample_uuid ?b sample_db) =
          NextError UserAlreadyExists 400"
    using signup_duplicate [OF a, of sample_deps permissive sample_uuid]
    by (simp add: falsy_def text_of_def sample_deps_def permissive_def)
  moreover have "snd (signup sample_deps permissive sample_uuid ?b sample_db) =
          (sample_db, [SelectUserByUsername ''ann''])"
    using a by (simp add: signup_def falsy_def text_of_def sample_deps_def permissive_def)
  moreover have "fst (signup sample_deps disconnected sample_uuid ?b sample_db) =
          NextError UnexpectedError 500"
    using signup_duplicate [OF a, of sample_deps disconnected sample_uuid]
    by (simp add: falsy_def text_of_def sample_deps_def disconnected_def)
  moreover have "fst (signup sample_deps permissive sample_uuid ?c sample_db) =
          NextError InvalidEmail 400"
    using signup_duplicate [OF c, of sample_deps permissive sample_uuid]
    by (simp add: falsy_def text_of_def sample_deps_def)
  ultimately show ?thesis
    using h by (simp add: prod_eq_iff)
qed

text \<open>
  C8 as stated fails twice for the existing user \<open>ann\<close>: a request without a password
  is answered MissingRequiredFields before the username is looked up, and a valid
  request whose lookup the engine rejects is answered 500.
\<close>

theorem signup_duplicate_invalid:
  "hasUserByUsername ''ann'' sample_db \<and>
   signup sample_deps permissive sample_uuid
     \<lparr>signup_username = Some ''ann'', signup_password = None,
      signup_email = Some ''ann2@x.com'', signup_nickname = Some ''Ann'',
      signup_introduction = None\<rparr> sample_db =
   (NextError MissingRequiredFields 400, sample_db, []) \<and>
   signup sample_deps disconnected sample_uuid
     \<lparr>signup_username = Some ''ann'', signup_password = Some ''s3cret'',
      signup_email = Some ''ann2@x.com'', signup_nickname = Some ''Ann'',
      signup_introduction = None\<rparr> sample_db =
   (NextError UnexpectedError 500, sample_db, [SelectUserByUsername ''ann''])"
  by (simp add: signup_def falsy_def text_of_def hasUserByUsername_def
        getUserFromUsername_def sample_db_def sample_user_def sample_deps_def
        disconnected_def)

section \<open>A profile update that gives nothing\<close>

text \<open>
  C9, as amended. For every PUT /profile request that carries a token and a resolved
  user holding USER_UPDATE_PROFILE, and that gives neither a nickname nor an
  introduction (each absent or empty), the handler answers 304, leaves the database as
  it was and sends no statement.
\<close>

theorem put_profile_nothing_given:
  assumes "TokenRequest req = Some token" and "UserRequest req = Some u"
    and "hasPermission u USER_UPDATE_PROFILE"
    and "falsy (body_nickname req)" and "falsy (body_introduction req)"
  shows "put_profile d req db = (End 304, db, [])"
  using assms by (simp add: put_profile_def)

theorem put_profile_nothing_given_witness:
  "put_profile sample_deps
     \<lparr>TokenRequest = Some ''tok'', UserRequest = Some (sample_account [USER_UPDATE_PROFILE]),
      body_nickname = None, body_introduction = Some []\<rparr> sample_db =
     (End 304, sample_db, [])"
  using put_profile_nothing_given
      [of "\<lparr>TokenRequest = Some ''tok'', UserRequest = Some (sample_account [USER_UPDATE_PROFILE]),
            body_nickname = None, body_introduction = Some []\<rparr>"
          "''tok''" "sample_account [USER_UPDATE_PROFILE]" sample_deps sample_db]
  by (simp add: hasPermission_def sample_account_def falsy_def)

text \<open>
  C9 as stated fails for an authenticated user without the permission: the request
  with neither field is answered 401, not 304 (the database is left as it was).
\<close>

theorem put_profile_nothing_given_unpermitted:
  "put_profile sample_deps
     \<lparr>TokenRequest = Some ''tok'', UserRequest = Some (sample_account []),
      body_nickname = None, body_introduction = None\<rparr> sample_db =
     (NextError Unauthorized 401, sample_db, [])"
  by (simp add: put_profile_def hasPermission_def sample_account_def)

section \<open>Reading a comic that is not stored\<close>

text \<open>
  C10. For every well-formed UUID that is the id of no stored comic, getComic throws:
  the lookup yields \<open>undefined\<close>, and reading its \<open>thumbnail\<close> raises a TypeError
  after the one statement that looked the comic up. Nothing is returned.
\<close>

theorem getComic_absent_throws:
  assumes "isUUID ident" and "\<forall>c \<in> set (comics db). comic_id c \<noteq> ident"
  shows "\<exists>m. getComic ident db = (Inl (TypeError m), db, [SelectComic ident])"
proof -
  from assms(1) have "\<not> bad_id ident"
    by (rule uuid_good_id)
  moreover from assms(2) have "find (\<lambda>c. comic_id c = ident) (comics db) = None"
    by (simp add: find_None_iff)
  ultimately show ?thesis
    by (simp add: getComic_def)
qed

theorem getComic_absent_throws_witness:
  "isUUID sample_uuid \<and> comics sample_db = [] \<and>
   (\<exists>m. getComic sample_uuid sample_db =
          (Inl (TypeError m), sample_db, [SelectComic sample_uuid]))"
proof -
  have a: "isUUID sample_uuid"
    by (rule sample_uuid_isUUID)
  have b: "comics sample_db = []"
    by (simp add: sample_db_def)
  then have c: "\<forall>c \<in> set (comics sample_db). comic_id c \<noteq> sample_uuid"
    by simp
  from getComic_absent_throws [OF a c] a b show ?thesis
    by blast
qed

end
